theory Spec2Isabelle
  imports Main
begin

section \<open>Data model of the macro-usage check\<close>

text \<open>
  The development embeds \<^verbatim>\<open>clang-tidy/cppcoreguidelines/MacroUsageCheck.cpp\<close>:
  the preprocessor callback \<^verbatim>\<open>MacroUsageCallbacks::MacroDefined\<close>, the helper
  \<^verbatim>\<open>isCapsOnly\<close> and the two reporting functions \<^verbatim>\<open>warnMacro\<close> and
  \<^verbatim>\<open>warnNaming\<close> of \<^verbatim>\<open>MacroUsageCheck\<close>.
\<close>

subsection \<open>Tokens\<close>

text \<open>
  Modelled from the spec: the token kinds (\<^verbatim>\<open>clang/Basic/TokenKinds.def\<close>) and
  \<^verbatim>\<open>Token::isLiteral\<close> (\<^verbatim>\<open>clang/Lex/Token.h\<close>) are not part of the checked source
  file. The spec distinguishes literal tokens (numeric, string and character literals),
  the stringize operator \<^verbatim>\<open>#\<close>, the token-paste operator \<^verbatim>\<open>##\<close> and every other
  token; the non-literal kinds listed here are a selection of the other tokens.
\<close>

datatype TokenKind =
    numeric_constant
  | char_constant
  | string_literal
  | hash
  | hashhash
  | "identifier"
  | l_paren
  | r_paren
  | comma
  | ellipsis
  | question
  | colon
  | punctuator

text \<open>
  A token carries its kind and, when it is an identifier, the spelling that
  \<^verbatim>\<open>getIdentifierInfo()->getName()\<close> returns. The host only ever passes an identifier
  as the macro name token, so the name is a plain field.
\<close>

record Token =
  getKind :: TokenKind
  getName :: string

text \<open>
  Modelled from the spec: \<^verbatim>\<open>Token::isLiteral\<close> holds of numeric, string and
  character literals.
\<close>

definition isLiteral :: "Token \<Rightarrow> bool" where
  "isLiteral T =
     (getKind T = numeric_constant \<or> getKind T = char_constant \<or> getKind T = string_literal)"

definition isOneOf :: "Token \<Rightarrow> TokenKind \<Rightarrow> TokenKind \<Rightarrow> bool" where
  "isOneOf T K1 K2 = (getKind T = K1 \<or> getKind T = K2)"

subsection \<open>Locations and the source manager\<close>

type_synonym SourceLocation = nat

text \<open>
  Modelled from the spec: the source manager is not part of the checked source file.
  The spec gives every definition location one of three classifications: the builtin
  file, the command-line file, or an ordinary file.
\<close>

datatype FileKind = BuiltinFile | CommandLineFile | OrdinaryFile

type_synonym SourceManager = "SourceLocation \<Rightarrow> FileKind"

definition isWrittenInBuiltinFile :: "SourceManager \<Rightarrow> SourceLocation \<Rightarrow> bool" where
  "isWrittenInBuiltinFile sm Loc = (sm Loc = BuiltinFile)"

definition isWrittenInCommandLineFile :: "SourceManager \<Rightarrow> SourceLocation \<Rightarrow> bool" where
  "isWrittenInCommandLineFile sm Loc = (sm Loc = CommandLineFile)"

subsection \<open>Macro definitions\<close>

record MacroInfo =
  isUsedForHeaderGuard :: bool
  tokens :: "Token list"
  isVariadic :: bool
  isFunctionLike :: bool

definition tokens_empty :: "MacroInfo \<Rightarrow> bool" where
  "tokens_empty Info = (tokens Info = [])"

record MacroDirective =
  getLocation :: SourceLocation
  getMacroInfo :: MacroInfo

subsection \<open>Diagnostics\<close>

text \<open>
  A diagnostic is the location, the format string and the argument streamed into it
  (\<^verbatim>\<open>diag(Loc, Message) << MacroName\<close>). The diagnostics engine is the only state the
  check writes to; it is modelled as the list of diagnostics emitted so far, oldest
  first.
\<close>

record Diagnostic =
  DiagLoc :: SourceLocation
  DiagMessage :: string
  DiagArg :: string

definition diag :: "SourceLocation \<Rightarrow> string \<Rightarrow> string \<Rightarrow> Diagnostic list \<Rightarrow> Diagnostic list" where
  "diag Loc Message Arg sink = sink @ [\<lparr>DiagLoc = Loc, DiagMessage = Message, DiagArg = Arg\<rparr>]"

subsection \<open>The callback object\<close>

text \<open>
  The compiled regular expression is kept as its match predicate: the regular
  expression engine is outside the checked source file, and the check only ever asks
  whether the macro name matches.
\<close>

record MacroUsageCallbacks =
  SM :: SourceManager
  RegExp :: "string \<Rightarrow> bool"
  CheckCapsOnly :: bool
  IgnoreCommandLineMacros :: bool

section \<open>The operations\<close>

subsection \<open>Character classes\<close>

text \<open>
  \<^verbatim>\<open>std::isupper\<close> and \<^verbatim>\<open>std::isdigit\<close> in the "C" locale, which is the one in
  effect since the tool never changes it: the letters A to Z and the digits 0 to 9.
\<close>

definition isupper :: "char \<Rightarrow> bool" where
  "isupper C = (65 \<le> (of_char C :: nat) \<and> (of_char C :: nat) \<le> 90)"

definition isdigit :: "char \<Rightarrow> bool" where
  "isdigit C = (48 \<le> (of_char C :: nat) \<and> (of_char C :: nat) \<le> 57)"

definition isCapsOnly :: "string \<Rightarrow> bool" where
  "isCapsOnly Name = list_all (\<lambda>C. isupper C \<or> isdigit C \<or> C = CHR ''_'') Name"

subsection \<open>Reporting\<close>

definition warnMacro :: "MacroDirective \<Rightarrow> string \<Rightarrow> Diagnostic list \<Rightarrow> Diagnostic list" where
  "warnMacro MD MacroName sink =
     (let Info = getMacroInfo MD;
          Message =
            (if list_all isLiteral (tokens Info)
               then ''macro '%0' used to declare a constant; consider using a 'constexpr' constant''
             else if isVariadic Info
               then ''variadic macro '%0' used; consider using a 'constexpr' variadic template function''
             else if isFunctionLike Info
               then ''function-like macro '%0' used; consider a 'constexpr' template function''
             else [])
      in if Message \<noteq> [] then diag (getLocation MD) Message MacroName sink else sink)"

definition warnNaming :: "MacroDirective \<Rightarrow> string \<Rightarrow> Diagnostic list \<Rightarrow> Diagnostic list" where
  "warnNaming MD MacroName sink =
     diag (getLocation MD)
       ''macro definition does not define the macro name '%0' using all uppercase characters''
       MacroName sink"

subsection \<open>The callback\<close>

definition MacroDefined ::
  "MacroUsageCallbacks \<Rightarrow> Token \<Rightarrow> MacroDirective \<Rightarrow> Diagnostic list \<Rightarrow> Diagnostic list" where
  "MacroDefined cb MacroNameTok MD sink =
     (if isWrittenInBuiltinFile (SM cb) (getLocation MD) \<or>
         isUsedForHeaderGuard (getMacroInfo MD) \<or>
         tokens_empty (getMacroInfo MD) \<or>
         list_ex (\<lambda>T. isOneOf T hash hashhash) (tokens (getMacroInfo MD))
      then sink
      else if IgnoreCommandLineMacros cb \<and>
              isWrittenInCommandLineFile (SM cb) (getLocation MD)
      then sink
      else
        (let MacroName = getName MacroNameTok in
         if MacroName = ''__GCC_HAVE_DWARF2_CFI_ASM'' then sink
         else
           (let sink1 =
                  (if \<not> CheckCapsOnly cb \<and> \<not> RegExp cb MacroName
                   then warnMacro MD MacroName sink else sink);
                sink2 =
                  (if CheckCapsOnly cb \<and> \<not> isCapsOnly MacroName
                   then warnNaming MD MacroName sink1 else sink1)
            in sink2)))"

subsection \<open>A whole run\<close>

text \<open>
  Modelled from the spec: the host preprocessor, which is not part of the checked
  source file, invokes the callback once per macro definition, strictly in source
  order. An event is the macro name token together with the macro directive.
\<close>

fun run ::
  "MacroUsageCallbacks \<Rightarrow> (Token \<times> MacroDirective) list \<Rightarrow> Diagnostic list \<Rightarrow> Diagnostic list" where
  "run cb [] sink = sink"
| "run cb ((MacroNameTok, MD) # events) sink = run cb events (MacroDefined cb MacroNameTok MD sink)"

section \<open>Vocabulary of the specification\<close>

text \<open>The four fixed message templates, by the names the specification gives them.\<close>

definition ConstantMessage :: string where
  "ConstantMessage =
     ''macro '%0' used to declare a constant; consider using a 'constexpr' constant''"

definition VariadicMessage :: string where
  "VariadicMessage =
     ''variadic macro '%0' used; consider using a 'constexpr' variadic template function''"

definition FunctionLikeMessage :: string where
  "FunctionLikeMessage =
     ''function-like macro '%0' used; consider a 'constexpr' template function''"

definition NamingMessage :: string where
  "NamingMessage =
     ''macro definition does not define the macro name '%0' using all uppercase characters''"

definition isUsageDiagnostic :: "Diagnostic \<Rightarrow> bool" where
  "isUsageDiagnostic d =
     (DiagMessage d = ConstantMessage \<or> DiagMessage d = VariadicMessage \<or>
      DiagMessage d = FunctionLikeMessage)"

definition isNamingDiagnostic :: "Diagnostic \<Rightarrow> bool" where
  "isNamingDiagnostic d = (DiagMessage d = NamingMessage)"

text \<open>
  The six rejection rules of the definition observer, as the specification lists
  them; a definition survives when none of them applies.
\<close>

definition survives :: "MacroUsageCallbacks \<Rightarrow> Token \<Rightarrow> MacroDirective \<Rightarrow> bool" where
  "survives cb MacroNameTok MD =
     (SM cb (getLocation MD) \<noteq> BuiltinFile \<and>
      \<not> isUsedForHeaderGuard (getMacroInfo MD) \<and>
      tokens (getMacroInfo MD) \<noteq> [] \<and>
      list_all (\<lambda>T. getKind T \<noteq> hash \<and> getKind T \<noteq> hashhash) (tokens (getMacroInfo MD)) \<and>
      \<not> (IgnoreCommandLineMacros cb \<and> SM cb (getLocation MD) = CommandLineFile) \<and>
      getName MacroNameTok \<noteq> ''__GCC_HAVE_DWARF2_CFI_ASM'')"

text \<open>The characters an all-uppercase macro name may consist of.\<close>

definition capsChars :: "char list" where
  "capsChars = ''ABCDEFGHIJKLMNOPQRSTUVWXYZ0123456789_''"

section \<open>Concrete configurations and macro definitions\<close>

text \<open>
  A source manager with location 0 in the builtin file, location 1 on the command
  line and every other location in an ordinary file.
\<close>

definition exampleSM :: SourceManager where
  "exampleSM Loc = (if Loc = 0 then BuiltinFile else if Loc = 1 then CommandLineFile else OrdinaryFile)"

text \<open>A pattern that matches the names beginning with \<^verbatim>\<open>DEBUG\<close>.\<close>

definition debugPattern :: "string \<Rightarrow> bool" where
  "debugPattern Name = (take 5 Name = ''DEBUG'')"

definition usageCallbacks :: MacroUsageCallbacks where
  "usageCallbacks =
     \<lparr>SM = exampleSM, RegExp = debugPattern, CheckCapsOnly = False,
      IgnoreCommandLineMacros = False\<rparr>"

definition namingCallbacks :: MacroUsageCallbacks where
  "namingCallbacks =
     \<lparr>SM = exampleSM, RegExp = debugPattern, CheckCapsOnly = True,
      IgnoreCommandLineMacros = False\<rparr>"

definition nameTok :: "string \<Rightarrow> Token" where
  "nameTok Name = \<lparr>getKind = identifier, getName = Name\<rparr>"

definition tok :: "TokenKind \<Rightarrow> Token" where
  "tok K = \<lparr>getKind = K, getName = []\<rparr>"

definition objectMacro :: "SourceLocation \<Rightarrow> Token list \<Rightarrow> MacroDirective" where
  "objectMacro Loc Body =
     \<lparr>getLocation = Loc,
      getMacroInfo = \<lparr>isUsedForHeaderGuard = False, tokens = Body, isVariadic = False,
                      isFunctionLike = False\<rparr>\<rparr>"

definition functionMacro :: "SourceLocation \<Rightarrow> Token list \<Rightarrow> MacroDirective" where
  "functionMacro Loc Body =
     \<lparr>getLocation = Loc,
      getMacroInfo = \<lparr>isUsedForHeaderGuard = False, tokens = Body, isVariadic = False,
                      isFunctionLike = True\<rparr>\<rparr>"

definition variadicMacro :: "SourceLocation \<Rightarrow> Token list \<Rightarrow> MacroDirective" where
  "variadicMacro Loc Body =
     \<lparr>getLocation = Loc,
      getMacroInfo = \<lparr>isUsedForHeaderGuard = False, tokens = Body, isVariadic = True,
                      isFunctionLike = True\<rparr>\<rparr>"

definition guardMacro :: "SourceLocation \<Rightarrow> Token list \<Rightarrow> MacroDirective" where
  "guardMacro Loc Body =
     \<lparr>getLocation = Loc,
      getMacroInfo = \<lparr>isUsedForHeaderGuard = True, tokens = Body, isVariadic = False,
                      isFunctionLike = False\<rparr>\<rparr>"

section \<open>Auxiliary facts\<close>

lemmas ex_defs = usageCallbacks_def namingCallbacks_def exampleSM_def debugPattern_def
  nameTok_def tok_def objectMacro_def functionMacro_def variadicMacro_def guardMacro_def
  survives_def isLiteral_def

lemmas run_defs = MacroDefined_def warnMacro_def warnNaming_def diag_def isCapsOnly_def
  isupper_def isdigit_def isWrittenInBuiltinFile_def isWrittenInCommandLineFile_def
  tokens_empty_def isOneOf_def ConstantMessage_def VariadicMessage_def FunctionLikeMessage_def
  NamingMessage_def

lemma messages_distinct:
  "ConstantMessage \<noteq> VariadicMessage" "ConstantMessage \<noteq> FunctionLikeMessage"
  "ConstantMessage \<noteq> NamingMessage" "VariadicMessage \<noteq> FunctionLikeMessage"
  "VariadicMessage \<noteq> NamingMessage" "FunctionLikeMessage \<noteq> NamingMessage"
  "VariadicMessage \<noteq> ConstantMessage" "FunctionLikeMessage \<noteq> ConstantMessage"
  "NamingMessage \<noteq> ConstantMessage" "FunctionLikeMessage \<noteq> VariadicMessage"
  "NamingMessage \<noteq> VariadicMessage" "NamingMessage \<noteq> FunctionLikeMessage"
  by (simp_all add: ConstantMessage_def VariadicMessage_def FunctionLikeMessage_def NamingMessage_def)

lemma warnMacro_literal:
  "list_all isLiteral (tokens (getMacroInfo MD)) \<Longrightarrow>
   warnMacro MD n sink = sink @ [\<lparr>DiagLoc = getLocation MD, DiagMessage = ConstantMessage, DiagArg = n\<rparr>]"
  by (simp add: warnMacro_def diag_def ConstantMessage_def)

lemma warnMacro_variadic:
  "\<not> list_all isLiteral (tokens (getMacroInfo MD)) \<Longrightarrow> isVariadic (getMacroInfo MD) \<Longrightarrow>
   warnMacro MD n sink = sink @ [\<lparr>DiagLoc = getLocation MD, DiagMessage = VariadicMessage, DiagArg = n\<rparr>]"
  by (simp add: warnMacro_def diag_def VariadicMessage_def)

lemma warnMacro_function:
  "\<not> list_all isLiteral (tokens (getMacroInfo MD)) \<Longrightarrow> \<not> isVariadic (getMacroInfo MD) \<Longrightarrow>
   isFunctionLike (getMacroInfo MD) \<Longrightarrow>
   warnMacro MD n sink = sink @ [\<lparr>DiagLoc = getLocation MD, DiagMessage = FunctionLikeMessage, DiagArg = n\<rparr>]"
  by (simp add: warnMacro_def diag_def FunctionLikeMessage_def)

lemma warnMacro_object:
  "\<not> list_all isLiteral (tokens (getMacroInfo MD)) \<Longrightarrow> \<not> isVariadic (getMacroInfo MD) \<Longrightarrow>
   \<not> isFunctionLike (getMacroInfo MD) \<Longrightarrow> warnMacro MD n sink = sink"
  by (simp add: warnMacro_def)

lemma warnNaming_eq:
  "warnNaming MD n sink = sink @ [\<lparr>DiagLoc = getLocation MD, DiagMessage = NamingMessage, DiagArg = n\<rparr>]"
  by (simp add: warnNaming_def diag_def NamingMessage_def)

lemma rejected_iff:
  "(isWrittenInBuiltinFile (SM cb) (getLocation MD) \<or>
         isUsedForHeaderGuard (getMacroInfo MD) \<or>
         tokens_empty (getMacroInfo MD) \<or>
         list_ex (\<lambda>T. isOneOf T hash hashhash) (tokens (getMacroInfo MD)) \<or>
    (IgnoreCommandLineMacros cb \<and> isWrittenInCommandLineFile (SM cb) (getLocation MD)) \<or>
    getName t = ''__GCC_HAVE_DWARF2_CFI_ASM'') = (\<not> survives cb t MD)"
  by (auto simp: survives_def isWrittenInBuiltinFile_def isWrittenInCommandLineFile_def
      tokens_empty_def isOneOf_def list_ex_iff list_all_iff)

lemma MacroDefined_rejected:
  "\<not> survives cb t MD \<Longrightarrow> MacroDefined cb t MD sink = sink"
  unfolding rejected_iff [symmetric] by (auto simp: MacroDefined_def Let_def)

lemma MacroDefined_survives:
  "survives cb t MD \<Longrightarrow>
   MacroDefined cb t MD sink =
     (if CheckCapsOnly cb
      then (if isCapsOnly (getName t) then sink else warnNaming MD (getName t) sink)
      else (if RegExp cb (getName t) then sink else warnMacro MD (getName t) sink))"
  using rejected_iff [of cb MD t] by (auto simp: MacroDefined_def Let_def)

lemma warnMacro_append: "warnMacro MD n sink = sink @ warnMacro MD n []"
  by (simp add: warnMacro_def diag_def Let_def)

lemma warnNaming_append: "warnNaming MD n sink = sink @ warnNaming MD n []"
  by (simp add: warnNaming_def diag_def)

lemma MacroDefined_append: "MacroDefined cb t MD sink = sink @ MacroDefined cb t MD []"
proof (cases "survives cb t MD")
  case True
  then show ?thesis
    using warnMacro_append [of MD "getName t" sink] warnNaming_append [of MD "getName t" sink]
    by (simp add: MacroDefined_survives)
next
  case False
  then show ?thesis by (simp add: MacroDefined_rejected)
qed

lemma run_append: "run cb events sink = sink @ run cb events []"
proof (induction events arbitrary: sink)
  case Nil
  show ?case by simp
next
  case (Cons e events)
  obtain t MD where e: "e = (t, MD)" by (cases e)
  have "run cb (e # events) sink = MacroDefined cb t MD sink @ run cb events []"
    using Cons.IH [of "MacroDefined cb t MD sink"] by (simp add: e)
  also have "\<dots> = sink @ MacroDefined cb t MD [] @ run cb events []"
    using MacroDefined_append [of cb t MD sink] by simp
  also have "MacroDefined cb t MD [] @ run cb events [] = run cb (e # events) []"
    using Cons.IH [of "MacroDefined cb t MD []"] by (simp add: e)
  finally show ?case .
qed

lemma caps_char_iff: "(isupper C \<or> isdigit C \<or> C = CHR ''_'') = (C \<in> set capsChars)"
proof -
  have inj: "\<And>D. (C = D) = ((of_char C :: nat) = of_char D)" by simp
  have "(C \<in> set capsChars) = ((of_char C :: nat) \<in> of_char ` set capsChars)"
    by (auto simp: image_iff)
  also have "\<dots> = ((65 \<le> (of_char C :: nat) \<and> (of_char C :: nat) \<le> 90) \<or>
      (48 \<le> (of_char C :: nat) \<and> (of_char C :: nat) \<le> 57) \<or> (of_char C :: nat) = 95)"
    unfolding capsChars_def by (simp del: of_char_eq_iff) arith
  also have "\<dots> = (isupper C \<or> isdigit C \<or> C = CHR ''_'')"
    by (simp add: isupper_def isdigit_def inj [of "CHR ''_''"] del: of_char_eq_iff)
  finally show ?thesis by simp
qed

lemma isCapsOnly_iff: "isCapsOnly Name = (set Name \<subseteq> set capsChars)"
  unfolding isCapsOnly_def list_all_iff caps_char_iff by auto

lemma emitted_naming:
  "CheckCapsOnly cb \<Longrightarrow>
   MacroDefined cb t MD [] = [] \<or>
   MacroDefined cb t MD [] =
     [\<lparr>DiagLoc = getLocation MD, DiagMessage = NamingMessage, DiagArg = getName t\<rparr>]"
  by (cases "survives cb t MD") (simp_all add: MacroDefined_rejected MacroDefined_survives warnNaming_eq)

lemma warnMacro_cases:
  "warnMacro MD n [] = [] \<or>
   warnMacro MD n [] = [\<lparr>DiagLoc = getLocation MD, DiagMessage = ConstantMessage, DiagArg = n\<rparr>] \<or>
   warnMacro MD n [] = [\<lparr>DiagLoc = getLocation MD, DiagMessage = VariadicMessage, DiagArg = n\<rparr>] \<or>
   warnMacro MD n [] = [\<lparr>DiagLoc = getLocation MD, DiagMessage = FunctionLikeMessage, DiagArg = n\<rparr>]"
  using warnMacro_literal [of MD n "[]"] warnMacro_variadic [of MD n "[]"]
    warnMacro_function [of MD n "[]"] warnMacro_object [of MD n "[]"]
  by auto

lemma emitted_usage:
  "\<not> CheckCapsOnly cb \<Longrightarrow>
   MacroDefined cb t MD [] = [] \<or> MacroDefined cb t MD [] = warnMacro MD (getName t) []"
  by (cases "survives cb t MD") (simp_all add: MacroDefined_rejected MacroDefined_survives)

section \<open>The properties\<close>

text \<open>
  Claim C1. A macro definition that reaches the usage-category check (it survives
  the rejection rules, \<^verbatim>\<open>CheckCapsOnly\<close> is off and the name does not match the allowed
  pattern) is handed to \<^verbatim>\<open>warnMacro\<close>, which emits at most one diagnostic, chosen in
  this order: the constant-like one when every body token is a literal; otherwise the
  variadic one when the macro is variadic; otherwise the function-like one when the
  macro is function-like; otherwise none.
\<close>

theorem usage_check_precedence:
  assumes "survives cb t MD" and "\<not> CheckCapsOnly cb" and "\<not> RegExp cb (getName t)"
  shows "MacroDefined cb t MD sink = warnMacro MD (getName t) sink \<and>
         warnMacro MD (getName t) sink = sink @
           (if list_all isLiteral (tokens (getMacroInfo MD))
              then [\<lparr>DiagLoc = getLocation MD, DiagMessage = ConstantMessage, DiagArg = getName t\<rparr>]
            else if isVariadic (getMacroInfo MD)
              then [\<lparr>DiagLoc = getLocation MD, DiagMessage = VariadicMessage, DiagArg = getName t\<rparr>]
            else if isFunctionLike (getMacroInfo MD)
              then [\<lparr>DiagLoc = getLocation MD, DiagMessage = FunctionLikeMessage, DiagArg = getName t\<rparr>]
            else []) \<and>
         length (MacroDefined cb t MD sink) \<le> length sink + 1"
proof -
  have run: "MacroDefined cb t MD sink = warnMacro MD (getName t) sink"
    using assms by (simp add: MacroDefined_survives)
  have shape: "warnMacro MD (getName t) sink = sink @
           (if list_all isLiteral (tokens (getMacroInfo MD))
              then [\<lparr>DiagLoc = getLocation MD, DiagMessage = ConstantMessage, DiagArg = getName t\<rparr>]
            else if isVariadic (getMacroInfo MD)
              then [\<lparr>DiagLoc = getLocation MD, DiagMessage = VariadicMessage, DiagArg = getName t\<rparr>]
            else if isFunctionLike (getMacroInfo MD)
              then [\<lparr>DiagLoc = getLocation MD, DiagMessage = FunctionLikeMessage, DiagArg = getName t\<rparr>]
            else [])"
    by (simp add: warnMacro_literal warnMacro_variadic warnMacro_function warnMacro_object)
  have "length (warnMacro MD (getName t) sink) \<le> length sink + 1"
    by (subst shape) simp
  with run shape show ?thesis by simp
qed

theorem usage_check_precedence_witness:
  "survives usageCallbacks (nameTok ''LOG'')
     (variadicMacro 7 [tok identifier, tok l_paren, tok identifier, tok comma, tok identifier, tok r_paren]) \<and>
   \<not> CheckCapsOnly usageCallbacks \<and>
   \<not> RegExp usageCallbacks (getName (nameTok ''LOG'')) \<and>
   MacroDefined usageCallbacks (nameTok ''LOG'')
     (variadicMacro 7 [tok identifier, tok l_paren, tok identifier, tok comma, tok identifier, tok r_paren]) [] =
     [\<lparr>DiagLoc = 7, DiagMessage = VariadicMessage, DiagArg = ''LOG''\<rparr>]"
proof -
  let ?MD = "variadicMacro 7 [tok identifier, tok l_paren, tok identifier, tok comma, tok identifier, tok r_paren]"
  have h1: "survives usageCallbacks (nameTok ''LOG'') ?MD" by (simp add: ex_defs)
  have h2: "\<not> CheckCapsOnly usageCallbacks" by (simp add: ex_defs)
  have h3: "\<not> RegExp usageCallbacks (getName (nameTok ''LOG''))" by (simp add: ex_defs)
  show ?thesis
    using h1 h2 h3 usage_check_precedence [OF h1 h2 h3, of "[]"] by (simp add: ex_defs)
qed

text \<open>
  Claim C2. For one macro definition the callback appends at most one
  usage-category diagnostic and at most one naming diagnostic, and the two checks
  exclude each other: with \<^verbatim>\<open>CheckCapsOnly\<close> set, no usage-category diagnostic appears
  and the callback does nothing or exactly what \<^verbatim>\<open>warnNaming\<close> does; with it unset, no
  naming diagnostic appears and the callback does nothing or exactly what
  \<^verbatim>\<open>warnMacro\<close> does.
\<close>

theorem checks_mutually_exclusive:
  "MacroDefined cb t MD sink = sink @ MacroDefined cb t MD [] \<and>
   length (filter isUsageDiagnostic (MacroDefined cb t MD [])) \<le> 1 \<and>
   length (filter isNamingDiagnostic (MacroDefined cb t MD [])) \<le> 1 \<and>
   (CheckCapsOnly cb \<longrightarrow>
      filter isUsageDiagnostic (MacroDefined cb t MD []) = [] \<and>
      (MacroDefined cb t MD sink = sink \<or>
       MacroDefined cb t MD sink = warnNaming MD (getName t) sink)) \<and>
   (\<not> CheckCapsOnly cb \<longrightarrow>
      filter isNamingDiagnostic (MacroDefined cb t MD []) = [] \<and>
      (MacroDefined cb t MD sink = sink \<or>
       MacroDefined cb t MD sink = warnMacro MD (getName t) sink))"
proof (cases "CheckCapsOnly cb")
  case True
  have calls: "MacroDefined cb t MD sink = sink \<or>
       MacroDefined cb t MD sink = warnNaming MD (getName t) sink"
    using True by (cases "survives cb t MD") (simp_all add: MacroDefined_rejected MacroDefined_survives)
  from emitted_naming [OF True, of t MD]
  have "filter isUsageDiagnostic (MacroDefined cb t MD []) = [] \<and>
        length (filter isNamingDiagnostic (MacroDefined cb t MD [])) \<le> 1"
    by (auto simp: isUsageDiagnostic_def isNamingDiagnostic_def messages_distinct)
  with True calls MacroDefined_append [of cb t MD sink] show ?thesis by simp
next
  case False
  have calls: "MacroDefined cb t MD sink = sink \<or>
       MacroDefined cb t MD sink = warnMacro MD (getName t) sink"
    using False by (cases "survives cb t MD") (simp_all add: MacroDefined_rejected MacroDefined_survives)
  from emitted_usage [OF False, of t MD] warnMacro_cases [of MD "getName t"]
  have "filter isNamingDiagnostic (MacroDefined cb t MD []) = [] \<and>
        length (filter isUsageDiagnostic (MacroDefined cb t MD [])) \<le> 1"
    by (auto simp: isUsageDiagnostic_def isNamingDiagnostic_def messages_distinct)
  with False calls MacroDefined_append [of cb t MD sink] show ?thesis by simp
qed

theorem checks_mutually_exclusive_witness:
  "CheckCapsOnly namingCallbacks \<and>
   MacroDefined namingCallbacks (nameTok ''square'')
     (functionMacro 7 [tok identifier, tok punctuator, tok identifier]) [] =
     [\<lparr>DiagLoc = 7, DiagMessage = NamingMessage, DiagArg = ''square''\<rparr>] \<and>
   filter isUsageDiagnostic (MacroDefined namingCallbacks (nameTok ''square'')
     (functionMacro 7 [tok identifier, tok punctuator, tok identifier]) []) = [] \<and>
   \<not> CheckCapsOnly usageCallbacks \<and>
   MacroDefined usageCallbacks (nameTok ''square'')
     (functionMacro 7 [tok identifier, tok punctuator, tok identifier]) [] =
     [\<lparr>DiagLoc = 7, DiagMessage = FunctionLikeMessage, DiagArg = ''square''\<rparr>] \<and>
   filter isNamingDiagnostic (MacroDefined usageCallbacks (nameTok ''square'')
     (functionMacro 7 [tok identifier, tok punctuator, tok identifier]) []) = []"
proof -
  let ?MD = "functionMacro 7 [tok identifier, tok punctuator, tok identifier]"
  have n: "CheckCapsOnly namingCallbacks" and u: "\<not> CheckCapsOnly usageCallbacks"
    by (simp_all add: ex_defs)
  have en: "MacroDefined namingCallbacks (nameTok ''square'') ?MD [] =
     [\<lparr>DiagLoc = 7, DiagMessage = NamingMessage, DiagArg = ''square''\<rparr>]"
    by (simp add: MacroDefined_def warnNaming_eq isCapsOnly_def isupper_def isdigit_def
        isWrittenInBuiltinFile_def isWrittenInCommandLineFile_def tokens_empty_def isOneOf_def ex_defs)
  have eu: "MacroDefined usageCallbacks (nameTok ''square'') ?MD [] =
     [\<lparr>DiagLoc = 7, DiagMessage = FunctionLikeMessage, DiagArg = ''square''\<rparr>]"
    by (simp add: MacroDefined_def warnMacro_def diag_def FunctionLikeMessage_def
        isWrittenInBuiltinFile_def isWrittenInCommandLineFile_def tokens_empty_def isOneOf_def ex_defs)
  have fn: "filter isUsageDiagnostic (MacroDefined namingCallbacks (nameTok ''square'') ?MD []) = []"
    using n checks_mutually_exclusive [of namingCallbacks "nameTok ''square''" ?MD "[]"]
    by blast
  have fu: "filter isNamingDiagnostic (MacroDefined usageCallbacks (nameTok ''square'') ?MD []) = []"
    using u checks_mutually_exclusive [of usageCallbacks "nameTok ''square''" ?MD "[]"]
    by blast
  from n en fn u eu fu show ?thesis by blast
qed

text \<open>
  Claim C3. A macro definition whose body is empty, or whose body contains a
  \<^verbatim>\<open>#\<close> or \<^verbatim>\<open>##\<close> token, or which is a header guard, or whose location lies in the
  builtin file, leaves the diagnostics unchanged, whatever the allowed pattern and
  the two flags of the callback object are.
\<close>

theorem excluded_definitions_silent:
  assumes "tokens (getMacroInfo MD) = [] \<or>
           (\<exists>T \<in> set (tokens (getMacroInfo MD)). getKind T = hash \<or> getKind T = hashhash) \<or>
           isUsedForHeaderGuard (getMacroInfo MD) \<or>
           SM cb (getLocation MD) = BuiltinFile"
  shows "MacroDefined cb t MD sink = sink"
proof -
  from assms have "\<not> survives cb t MD"
    by (auto simp: survives_def list_all_iff)
  then show ?thesis by (rule MacroDefined_rejected)
qed

theorem excluded_definitions_silent_witness:
  "tokens (getMacroInfo (objectMacro 7 [])) = [] \<and>
   MacroDefined usageCallbacks (nameTok ''EMPTY'') (objectMacro 7 []) [] = [] \<and>
   getKind (tok hash) = hash \<and>
   MacroDefined namingCallbacks (nameTok ''str'') (functionMacro 7 [tok hash, tok identifier]) [] = [] \<and>
   getKind (tok hashhash) = hashhash \<and>
   MacroDefined usageCallbacks (nameTok ''CAT'')
     (functionMacro 7 [tok identifier, tok hashhash, tok identifier]) [] = [] \<and>
   isUsedForHeaderGuard (getMacroInfo (guardMacro 7 [tok numeric_constant])) \<and>
   MacroDefined usageCallbacks (nameTok ''FOO_H'') (guardMacro 7 [tok numeric_constant]) [] = [] \<and>
   SM usageCallbacks (getLocation (objectMacro 0 [tok numeric_constant])) = BuiltinFile \<and>
   MacroDefined usageCallbacks (nameTok ''__STDC__'') (objectMacro 0 [tok numeric_constant]) [] = []"
proof -
  have e: "tokens (getMacroInfo (objectMacro 7 [])) = []" by (simp add: ex_defs)
  have ks: "getKind (tok hash) = hash" and kp: "getKind (tok hashhash) = hashhash"
    by (simp_all add: tok_def)
  have s: "\<exists>T \<in> set (tokens (getMacroInfo (functionMacro 7 [tok hash, tok identifier]))).
             getKind T = hash \<or> getKind T = hashhash"
    by (simp add: ex_defs)
  have p: "\<exists>T \<in> set (tokens (getMacroInfo (functionMacro 7 [tok identifier, tok hashhash, tok identifier]))).
             getKind T = hash \<or> getKind T = hashhash"
    by (simp add: ex_defs)
  have g: "isUsedForHeaderGuard (getMacroInfo (guardMacro 7 [tok numeric_constant]))"
    by (simp add: ex_defs)
  have b: "SM usageCallbacks (getLocation (objectMacro 0 [tok numeric_constant])) = BuiltinFile"
    by (simp add: ex_defs)
  show ?thesis
    using e ks kp g b
      excluded_definitions_silent [OF disjI1, OF e, of usageCallbacks "nameTok ''EMPTY''" "[]"]
      excluded_definitions_silent [OF disjI2, OF disjI1, OF s, of namingCallbacks "nameTok ''str''" "[]"]
      excluded_definitions_silent [OF disjI2, OF disjI1, OF p, of usageCallbacks "nameTok ''CAT''" "[]"]
      excluded_definitions_silent [OF disjI2, OF disjI2, OF disjI1, OF g, of usageCallbacks "nameTok ''FOO_H''" "[]"]
      excluded_definitions_silent [OF disjI2, OF disjI2, OF disjI2, OF b, of "nameTok ''__STDC__''" "[]"]
    by blast
qed

text \<open>
  Claim C4, as amended. A variadic macro never receives the function-like
  diagnostic. When it receives a usage-category diagnostic, that diagnostic is the
  variadic one if some body token is not a literal, and the constant-like one if
  every body token is a literal.
\<close>

theorem variadic_diagnostic:
  assumes "isVariadic (getMacroInfo MD)"
  shows "(\<forall>d \<in> set (MacroDefined cb t MD []). DiagMessage d \<noteq> FunctionLikeMessage) \<and>
         (\<forall>d \<in> set (MacroDefined cb t MD []). isUsageDiagnostic d \<longrightarrow>
            d = \<lparr>DiagLoc = getLocation MD,
                 DiagMessage = (if list_all isLiteral (tokens (getMacroInfo MD))
                                then ConstantMessage else VariadicMessage),
                 DiagArg = getName t\<rparr>)"
proof (cases "CheckCapsOnly cb")
  case True
  from emitted_naming [OF True, of t MD] show ?thesis
    by (auto simp: isUsageDiagnostic_def messages_distinct)
next
  case False
  have "warnMacro MD (getName t) [] =
          [\<lparr>DiagLoc = getLocation MD,
            DiagMessage = (if list_all isLiteral (tokens (getMacroInfo MD))
                           then ConstantMessage else VariadicMessage),
            DiagArg = getName t\<rparr>]"
    using assms by (simp add: warnMacro_literal warnMacro_variadic)
  with emitted_usage [OF False, of t MD] show ?thesis
    by (auto simp: messages_distinct)
qed

theorem variadic_diagnostic_witness:
  "isVariadic (getMacroInfo (variadicMacro 7
     [tok identifier, tok l_paren, tok identifier, tok comma, tok identifier, tok r_paren])) \<and>
   MacroDefined usageCallbacks (nameTok ''LOG'') (variadicMacro 7
     [tok identifier, tok l_paren, tok identifier, tok comma, tok identifier, tok r_paren]) [] =
     [\<lparr>DiagLoc = 7, DiagMessage = VariadicMessage, DiagArg = ''LOG''\<rparr>] \<and>
   DiagMessage \<lparr>DiagLoc = 7, DiagMessage = VariadicMessage, DiagArg = ''LOG''\<rparr> \<noteq> FunctionLikeMessage"
proof -
  let ?MD = "variadicMacro 7
     [tok identifier, tok l_paren, tok identifier, tok comma, tok identifier, tok r_paren]"
  have v: "isVariadic (getMacroInfo ?MD)" by (simp add: ex_defs)
  have e: "MacroDefined usageCallbacks (nameTok ''LOG'') ?MD [] =
     [\<lparr>DiagLoc = 7, DiagMessage = VariadicMessage, DiagArg = ''LOG''\<rparr>]"
    by (simp add: run_defs ex_defs)
  have "DiagMessage \<lparr>DiagLoc = 7, DiagMessage = VariadicMessage, DiagArg = ''LOG''\<rparr> \<noteq> FunctionLikeMessage"
    using variadic_diagnostic [OF v, of usageCallbacks "nameTok ''LOG''"] by (simp add: e)
  with v e show ?thesis by blast
qed

text \<open>
  The macro \<^verbatim>\<open>#define ZERO(...) 0\<close> is variadic and receives a usage-category
  diagnostic, but the constant-like one rather than the variadic one.
\<close>

theorem variadic_literal_body_counterexample:
  "isVariadic (getMacroInfo (variadicMacro 7 [tok numeric_constant])) \<and>
   isFunctionLike (getMacroInfo (variadicMacro 7 [tok numeric_constant])) \<and>
   MacroDefined usageCallbacks (nameTok ''ZERO'') (variadicMacro 7 [tok numeric_constant]) [] =
     [\<lparr>DiagLoc = 7, DiagMessage = ConstantMessage, DiagArg = ''ZERO''\<rparr>] \<and>
   isUsageDiagnostic \<lparr>DiagLoc = 7, DiagMessage = ConstantMessage, DiagArg = ''ZERO''\<rparr> \<and>
   DiagMessage \<lparr>DiagLoc = 7, DiagMessage = ConstantMessage, DiagArg = ''ZERO''\<rparr> \<noteq> VariadicMessage"
  by (simp add: run_defs ex_defs isUsageDiagnostic_def)

text \<open>
  Claim C5, as amended. A macro definition that reaches the usage-category check
  (it survives the rejection rules, \<^verbatim>\<open>CheckCapsOnly\<close> is off and the name does not match
  the allowed pattern) and whose body consists of literal tokens only receives
  exactly the constant-like diagnostic.
\<close>

theorem literal_body_constant:
  assumes "survives cb t MD" and "\<not> CheckCapsOnly cb" and "\<not> RegExp cb (getName t)"
    and "list_all isLiteral (tokens (getMacroInfo MD))"
  shows "MacroDefined cb t MD sink =
           sink @ [\<lparr>DiagLoc = getLocation MD, DiagMessage = ConstantMessage, DiagArg = getName t\<rparr>]"
  using assms by (simp add: MacroDefined_survives warnMacro_literal)

theorem literal_body_constant_witness:
  "survives usageCallbacks (nameTok ''MAX'') (objectMacro 7 [tok numeric_constant]) \<and>
   \<not> CheckCapsOnly usageCallbacks \<and>
   \<not> RegExp usageCallbacks (getName (nameTok ''MAX'')) \<and>
   list_all isLiteral (tokens (getMacroInfo (objectMacro 7 [tok numeric_constant]))) \<and>
   MacroDefined usageCallbacks (nameTok ''MAX'') (objectMacro 7 [tok numeric_constant]) [] =
     [\<lparr>DiagLoc = 7, DiagMessage = ConstantMessage, DiagArg = ''MAX''\<rparr>]"
proof -
  let ?MD = "objectMacro 7 [tok numeric_constant]"
  have h1: "survives usageCallbacks (nameTok ''MAX'') ?MD" by (simp add: ex_defs)
  have h2: "\<not> CheckCapsOnly usageCallbacks" by (simp add: ex_defs)
  have h3: "\<not> RegExp usageCallbacks (getName (nameTok ''MAX''))" by (simp add: ex_defs)
  have h4: "list_all isLiteral (tokens (getMacroInfo ?MD))" by (simp add: ex_defs)
  show ?thesis
    using h1 h2 h3 h4 literal_body_constant [OF h1 h2 h3 h4, of "[]"] by (simp add: ex_defs)
qed

text \<open>
  With \<^verbatim>\<open>CheckCapsOnly\<close> set, \<^verbatim>\<open>#define MAX 100\<close> has an all-literal body and
  receives no diagnostic at all.
\<close>

theorem literal_body_counterexample:
  "list_all isLiteral (tokens (getMacroInfo (objectMacro 7 [tok numeric_constant]))) \<and>
   tokens (getMacroInfo (objectMacro 7 [tok numeric_constant])) \<noteq> [] \<and>
   MacroDefined namingCallbacks (nameTok ''MAX'') (objectMacro 7 [tok numeric_constant]) [] = []"
  by (simp add: run_defs ex_defs)

text \<open>
  Claim C6. With \<^verbatim>\<open>CheckCapsOnly\<close> off, a macro whose name matches the allowed
  pattern leaves the diagnostics unchanged; in particular no usage-category
  diagnostic is emitted for it.
\<close>

theorem allowed_name_silent:
  assumes "\<not> CheckCapsOnly cb" and "RegExp cb (getName t)"
  shows "MacroDefined cb t MD sink = sink \<and>
         filter isUsageDiagnostic (MacroDefined cb t MD []) = []"
proof -
  have "MacroDefined cb t MD s = s" for s
    using assms by (cases "survives cb t MD") (simp_all add: MacroDefined_rejected MacroDefined_survives)
  then show ?thesis by simp
qed

theorem allowed_name_silent_witness:
  "\<not> CheckCapsOnly usageCallbacks \<and>
   RegExp usageCallbacks (getName (nameTok ''DEBUG_PRINT'')) \<and>
   MacroDefined usageCallbacks (nameTok ''DEBUG_PRINT'')
     (functionMacro 7 [tok identifier, tok l_paren, tok identifier, tok r_paren]) [] = []"
proof -
  have h1: "\<not> CheckCapsOnly usageCallbacks" by (simp add: ex_defs)
  have h2: "RegExp usageCallbacks (getName (nameTok ''DEBUG_PRINT''))" by (simp add: ex_defs)
  show ?thesis
    using h1 h2 allowed_name_silent [OF h1 h2,
        of "functionMacro 7 [tok identifier, tok l_paren, tok identifier, tok r_paren]" "[]"]
    by blast
qed

text \<open>
  Claim C7. With \<^verbatim>\<open>CheckCapsOnly\<close> set, a macro definition that survives the
  rejection rules produces no diagnostic exactly when every character of its name is
  one of the letters A to Z, a digit or the underscore; otherwise exactly one naming
  diagnostic is appended.
\<close>

theorem naming_check_iff:
  assumes "CheckCapsOnly cb" and "survives cb t MD"
  shows "((MacroDefined cb t MD sink = sink) = (set (getName t) \<subseteq> set capsChars)) \<and>
         (\<not> set (getName t) \<subseteq> set capsChars \<longrightarrow>
            MacroDefined cb t MD sink =
              sink @ [\<lparr>DiagLoc = getLocation MD, DiagMessage = NamingMessage, DiagArg = getName t\<rparr>])"
  using assms by (simp add: MacroDefined_survives warnNaming_eq isCapsOnly_iff)

theorem naming_check_iff_witness:
  "CheckCapsOnly namingCallbacks \<and>
   survives namingCallbacks (nameTok ''myMacro'') (objectMacro 7 [tok numeric_constant]) \<and>
   \<not> set (getName (nameTok ''myMacro'')) \<subseteq> set capsChars \<and>
   MacroDefined namingCallbacks (nameTok ''myMacro'') (objectMacro 7 [tok numeric_constant]) [] =
     [\<lparr>DiagLoc = 7, DiagMessage = NamingMessage, DiagArg = ''myMacro''\<rparr>] \<and>
   survives namingCallbacks (nameTok ''MY_MACRO'') (objectMacro 7 [tok numeric_constant]) \<and>
   set (getName (nameTok ''MY_MACRO'')) \<subseteq> set capsChars \<and>
   MacroDefined namingCallbacks (nameTok ''MY_MACRO'') (objectMacro 7 [tok numeric_constant]) [] = []"
proof -
  let ?MD = "objectMacro 7 [tok numeric_constant]"
  have c: "CheckCapsOnly namingCallbacks" by (simp add: ex_defs)
  have s1: "survives namingCallbacks (nameTok ''myMacro'') ?MD" by (simp add: ex_defs)
  have s2: "survives namingCallbacks (nameTok ''MY_MACRO'') ?MD" by (simp add: ex_defs)
  have n1: "\<not> set (getName (nameTok ''myMacro'')) \<subseteq> set capsChars"
    by (simp add: nameTok_def capsChars_def)
  have n2: "set (getName (nameTok ''MY_MACRO'')) \<subseteq> set capsChars"
    by (simp add: nameTok_def capsChars_def)
  have e1: "MacroDefined namingCallbacks (nameTok ''myMacro'') ?MD [] =
     [\<lparr>DiagLoc = 7, DiagMessage = NamingMessage, DiagArg = ''myMacro''\<rparr>]"
  proof -
    have "MacroDefined namingCallbacks (nameTok ''myMacro'') ?MD [] =
        [] @ [\<lparr>DiagLoc = getLocation ?MD, DiagMessage = NamingMessage,
               DiagArg = getName (nameTok ''myMacro'')\<rparr>]"
      using n1 naming_check_iff [OF c s1, of "[]"] by blast
    also have "\<dots> = [\<lparr>DiagLoc = 7, DiagMessage = NamingMessage, DiagArg = ''myMacro''\<rparr>]"
      by (simp add: nameTok_def objectMacro_def)
    finally show ?thesis .
  qed
  have e2: "MacroDefined namingCallbacks (nameTok ''MY_MACRO'') ?MD [] = []"
    using n2 naming_check_iff [OF c s2, of "[]"] by blast
  from c s1 n1 e1 s2 n2 e2 show ?thesis by blast
qed

text \<open>
  Claim C8. A macro named \<^verbatim>\<open>__GCC_HAVE_DWARF2_CFI_ASM\<close> leaves the diagnostics
  unchanged in every configuration.
\<close>

theorem exempt_name_silent:
  assumes "getName t = ''__GCC_HAVE_DWARF2_CFI_ASM''"
  shows "MacroDefined cb t MD sink = sink"
proof -
  from assms have "\<not> survives cb t MD" by (simp add: survives_def)
  then show ?thesis by (rule MacroDefined_rejected)
qed

theorem exempt_name_silent_witness:
  "getName (nameTok ''__GCC_HAVE_DWARF2_CFI_ASM'') = ''__GCC_HAVE_DWARF2_CFI_ASM'' \<and>
   MacroDefined usageCallbacks (nameTok ''__GCC_HAVE_DWARF2_CFI_ASM'')
     (objectMacro 1 [tok numeric_constant]) [] = [] \<and>
   MacroDefined usageCallbacks (nameTok ''__GCC_HAVE_DWARF2_CFI_ASN'')
     (objectMacro 1 [tok numeric_constant]) [] =
     [\<lparr>DiagLoc = 1, DiagMessage = ConstantMessage, DiagArg = ''__GCC_HAVE_DWARF2_CFI_ASN''\<rparr>]"
proof -
  have h: "getName (nameTok ''__GCC_HAVE_DWARF2_CFI_ASM'') = ''__GCC_HAVE_DWARF2_CFI_ASM''"
    by (simp add: nameTok_def)
  have other: "MacroDefined usageCallbacks (nameTok ''__GCC_HAVE_DWARF2_CFI_ASN'')
     (objectMacro 1 [tok numeric_constant]) [] =
     [\<lparr>DiagLoc = 1, DiagMessage = ConstantMessage, DiagArg = ''__GCC_HAVE_DWARF2_CFI_ASN''\<rparr>]"
    by (simp add: run_defs ex_defs)
  from h other exempt_name_silent [OF h, of usageCallbacks "objectMacro 1 [tok numeric_constant]" "[]"]
  show ?thesis by blast
qed

text \<open>
  Claim C9. The diagnostics a run appends do not depend on what was emitted before:
  they are the per-definition diagnostics, concatenated in the order of the
  definitions. Hence a second run over the same definitions with the same callback
  object appends the same sequence again.
\<close>

theorem run_stateless:
  "run cb events sink = sink @ run cb events [] \<and>
   run cb events [] = concat (map (\<lambda>(t, MD). MacroDefined cb t MD []) events) \<and>
   run cb events (run cb events []) = run cb events [] @ run cb events []"
proof -
  have "run cb events [] = concat (map (\<lambda>(t, MD). MacroDefined cb t MD []) events)"
  proof (induction events)
    case Nil
    show ?case by simp
  next
    case (Cons e events)
    obtain t MD where e: "e = (t, MD)" by (cases e)
    have "run cb (e # events) [] = MacroDefined cb t MD [] @ run cb events []"
      using run_append [of cb events "MacroDefined cb t MD []"] by (simp add: e)
    with Cons.IH show ?case by (simp add: e)
  qed
  moreover have "run cb events sink = sink @ run cb events []"
    by (rule run_append)
  moreover have "run cb events (run cb events []) = run cb events [] @ run cb events []"
    by (rule run_append)
  ultimately show ?thesis by blast
qed

text \<open>
  Claim C10. With \<^verbatim>\<open>CheckCapsOnly\<close> set, replacing the allowed pattern changes
  nothing, and a surviving macro whose name matches the pattern but is not
  all-uppercase still receives the naming diagnostic.
\<close>

theorem pattern_irrelevant_for_naming:
  assumes "CheckCapsOnly cb"
  shows "MacroDefined (cb\<lparr>RegExp := r\<rparr>) t MD sink = MacroDefined cb t MD sink \<and>
         (survives cb t MD \<and> RegExp cb (getName t) \<and> \<not> set (getName t) \<subseteq> set capsChars \<longrightarrow>
            MacroDefined cb t MD sink =
              sink @ [\<lparr>DiagLoc = getLocation MD, DiagMessage = NamingMessage, DiagArg = getName t\<rparr>])"
proof -
  have "MacroDefined (cb\<lparr>RegExp := r\<rparr>) t MD sink = MacroDefined cb t MD sink"
    using assms by (simp add: MacroDefined_def Let_def)
  moreover have "survives cb t MD \<Longrightarrow> \<not> set (getName t) \<subseteq> set capsChars \<Longrightarrow>
      MacroDefined cb t MD sink =
        sink @ [\<lparr>DiagLoc = getLocation MD, DiagMessage = NamingMessage, DiagArg = getName t\<rparr>]"
    using assms by (simp add: MacroDefined_survives warnNaming_eq isCapsOnly_iff)
  ultimately show ?thesis by blast
qed

theorem pattern_irrelevant_for_naming_witness:
  "CheckCapsOnly namingCallbacks \<and>
   survives namingCallbacks (nameTok ''DEBUG_trace'') (objectMacro 7 [tok identifier]) \<and>
   RegExp namingCallbacks (getName (nameTok ''DEBUG_trace'')) \<and>
   \<not> set (getName (nameTok ''DEBUG_trace'')) \<subseteq> set capsChars \<and>
   MacroDefined namingCallbacks (nameTok ''DEBUG_trace'') (objectMacro 7 [tok identifier]) [] =
     [\<lparr>DiagLoc = 7, DiagMessage = NamingMessage, DiagArg = ''DEBUG_trace''\<rparr>]"
proof -
  let ?MD = "objectMacro 7 [tok identifier]"
  have c: "CheckCapsOnly namingCallbacks" by (simp add: ex_defs)
  have s: "survives namingCallbacks (nameTok ''DEBUG_trace'') ?MD" by (simp add: ex_defs)
  have m: "RegExp namingCallbacks (getName (nameTok ''DEBUG_trace''))" by (simp add: ex_defs)
  have n: "\<not> set (getName (nameTok ''DEBUG_trace'')) \<subseteq> set capsChars"
    by (simp add: nameTok_def capsChars_def)
  have e: "MacroDefined namingCallbacks (nameTok ''DEBUG_trace'') ?MD [] =
     [\<lparr>DiagLoc = 7, DiagMessage = NamingMessage, DiagArg = ''DEBUG_trace''\<rparr>]"
  proof -
    have "MacroDefined namingCallbacks (nameTok ''DEBUG_trace'') ?MD [] =
        [] @ [\<lparr>DiagLoc = getLocation ?MD, DiagMessage = NamingMessage,
               DiagArg = getName (nameTok ''DEBUG_trace'')\<rparr>]"
      using s m n pattern_irrelevant_for_naming [OF c, of debugPattern "nameTok ''DEBUG_trace''" ?MD "[]"]
      by blast
    also have "\<dots> = [\<lparr>DiagLoc = 7, DiagMessage = NamingMessage, DiagArg = ''DEBUG_trace''\<rparr>]"
      by (simp add: nameTok_def objectMacro_def)
    finally show ?thesis .
  qed
  from c s m n e show ?thesis by blast
qed

end
